theory Spec2Isabelle
  imports Main "HOL-Library.Word"
begin

section \<open>Errors with stack traces: a model of error.go\<close>

text \<open>
  The package builds values of type \<^verbatim>\<open>*Error\<close>: a pointer to a struct that holds an
  underlying error, the program counters captured when it was made, the frames resolved
  from them (filled on first use) and a prefix. Pointer identity and the one mutable
  field matter, so the model has an explicit heap of \<^verbatim>\<open>Error\<close> structs. Every function
  takes the heap and returns the new one; a panic of the Go code is a value.
\<close>

subsection \<open>Values\<close>

text \<open>Go's \<^verbatim>\<open>uintptr\<close> and \<^verbatim>\<open>int\<close> on a 64-bit platform; \<open>sint\<close> reads an \<^verbatim>\<open>int\<close>.\<close>

type_synonym uintptr = "64 word"
type_synonym goint = "64 word"

text \<open>A \<^verbatim>\<open>*Error\<close>: the nil pointer, or the address of a struct in the heap.\<close>

datatype ref = Null | Addr nat

text \<open>
  An error value whose dynamic type is not \<^verbatim>\<open>*Error\<close>. The package observes three
  things of such a value: whether its type is \<^verbatim>\<open>uncaughtPanic\<close>, the name of its
  type (\<^verbatim>\<open>reflect.TypeOf(..).String()\<close>) and its message (\<^verbatim>\<open>Error()\<close>).

  Modelled from the spec: the type \<^verbatim>\<open>uncaughtPanic\<close> is declared outside error.go; it
  is the error "that came from an uncaught runtime failure", and it carries a message.
\<close>

datatype plainerr =
    UncaughtPanic string
  | Foreign (type_name: string) (message: string)

fun plain_Error :: "plainerr \<Rightarrow> string" where
  "plain_Error (UncaughtPanic m) = m"
| "plain_Error (Foreign t m) = m"

text \<open>A non-nil value of the interface \<^verbatim>\<open>error\<close>, by dynamic type.\<close>

datatype goerror = ErrorPtr ref | Plain plainerr

text \<open>The interface \<^verbatim>\<open>error\<close>: \<open>None\<close> is the nil interface.\<close>

type_synonym error = "goerror option"

text \<open>
  A value of \<^verbatim>\<open>interface{}\<close>: the nil interface, a value whose type implements
  \<^verbatim>\<open>error\<close>, or any other value, of which the package only takes the \<^verbatim>\<open>%v\<close>
  rendering.
\<close>

datatype iface = NilIface | ErrVal goerror | NonErr string

fun to_iface :: "error \<Rightarrow> iface" where
  "to_iface None = NilIface"
| "to_iface (Some g) = ErrVal g"

text \<open>
  Modelled from the spec: the struct \<^verbatim>\<open>StackFrame\<close> is declared outside error.go. The
  spec's frame descriptor has the location it was resolved from and the resolved
  function name, file name and line number. \<open>zeroFrame\<close> is its zero value, which
  \<^verbatim>\<open>make([]StackFrame, n)\<close> fills a new slice with.
\<close>

record StackFrame =
  location :: uintptr
  functionName :: string
  fileName :: string
  lineNumber :: int

definition zeroFrame :: StackFrame where
  "zeroFrame = \<lparr>location = 0, functionName = [], fileName = [], lineNumber = 0\<rparr>"

text \<open>
  The struct \<^verbatim>\<open>Error\<close>. \<open>frames\<close> is a slice compared with nil by the code, so it is an
  option: \<open>None\<close> is the nil slice, \<open>Some []\<close> an empty one.
\<close>

record Error =
  Err :: error
  stack :: "uintptr list"
  frames :: "StackFrame list option"
  prefix :: string

type_synonym heap = "Error list"

text \<open>
  What ends a call without a result: the two panics the package can raise, and the fatal
  error of the runtime when memory is exhausted, which is no panic but ends the call all
  the same.
\<close>

datatype panic = NilDereference | MakesliceLenOutOfRange | OutOfMemory

text \<open>
  Reading through a \<^verbatim>\<open>*Error\<close>. Go panics on the nil pointer. An address beyond the
  heap does not exist in Go (pointers are never dangling); the model gives it the same
  result as nil so that the function is total.
\<close>

fun deref :: "heap \<Rightarrow> ref \<Rightarrow> Error option" where
  "deref h Null = None"
| "deref h (Addr a) = (if a < length h then Some (h ! a) else None)"

subsection \<open>The runtime and fmt\<close>

text \<open>
  \<^verbatim>\<open>runtime.Callers(skip, pc)\<close> writes the return program counters of the calling
  goroutine's stack into \<open>pc\<close>, leaving out the first \<open>skip\<close> frames, where frame 0
  is \<^verbatim>\<open>Callers\<close> itself, and returns how many it wrote: at most \<open>len(pc)\<close>. Here
  \<open>cs\<close> is that stack, innermost frame first, \<open>n\<close> is \<open>len(pc)\<close>, and the result
  is the part of \<open>pc\<close> written, which is what \<^verbatim>\<open>stack[:length]\<close> keeps. A negative
  \<open>skip\<close> leaves nothing out.
\<close>

definition Callers :: "int \<Rightarrow> nat \<Rightarrow> uintptr list \<Rightarrow> uintptr list" where
  "Callers skip n cs = take n (drop (nat skip) cs)"

text \<open>
  \<^verbatim>\<open>make([]uintptr, len)\<close>, as \<^verbatim>\<open>runtime.makeslice\<close> has it: the slice takes 8 bytes for
  each element, and the call panics with \<^verbatim>\<open>makeslice: len out of range\<close> when \<open>len\<close>
  is negative or the bytes exceed \<^verbatim>\<open>maxAlloc\<close>, which is \<open>2 ^ 48\<close> on a 64-bit platform
  with 48 address bits such as linux/amd64. Below that limit the allocator can still
  refuse: \<open>avail\<close> is the number of bytes it can give at the time of the call, and a
  request for more ends the program (out of memory). \<open>None\<close> says that the slice was
  made. The structs of the package are small and of fixed size; the model supposes that
  they can always be allocated.
\<close>

definition maxAlloc :: nat where
  "maxAlloc = 2 ^ 48"

definition makeslice :: "nat \<Rightarrow> goint \<Rightarrow> panic option" where
  "makeslice avail len =
     (if sint len < 0 \<or> maxAlloc < 8 * nat (sint len) then Some MakesliceLenOutOfRange
      else if avail < 8 * nat (sint len) then Some OutOfMemory
      else None)"

text \<open>\<^verbatim>\<open>fmt.Errorf("%v", e)\<close> makes an \<^verbatim>\<open>*errors.errorString\<close> of the rendering of \<open>e\<close>.\<close>

definition fmt_Errorf :: "string \<Rightarrow> goerror" where
  "fmt_Errorf s = Plain (Foreign ''*errors.errorString'' s)"

text \<open>fmt prints the nil interface as \<^verbatim>\<open><nil>\<close>.\<close>

definition nilAngleString :: string where
  "nilAngleString = ''<nil>''"

text \<open>\<^verbatim>\<open>fmt.Sprintf("%s: %s", a, b)\<close>\<close>

definition Sprintf_colon :: "string \<Rightarrow> string \<Rightarrow> string" where
  "Sprintf_colon a b = a @ '': '' @ b"

subsection \<open>New, Wrap, WrapPrefix\<close>

text \<open>
  The type switch of \<^verbatim>\<open>New\<close> and of \<^verbatim>\<open>wrap\<close>: an error is kept, anything else (the
  nil interface too: it matches no \<^verbatim>\<open>case error\<close>) goes through \<^verbatim>\<open>fmt.Errorf("%v")\<close>.
\<close>

fun as_error :: "iface \<Rightarrow> goerror" where
  "as_error (ErrVal g) = g"
| "as_error NilIface = fmt_Errorf nilAngleString"
| "as_error (NonErr s) = fmt_Errorf s"

text \<open>
  In all functions below \<open>MaxStackDepth\<close> is the package variable of that name,
  \<open>avail\<close> is the memory that \<^verbatim>\<open>make([]uintptr, MaxStackDepth)\<close> can get, and \<open>cs\<close>
  is the stack of the goroutine at the moment \<^verbatim>\<open>runtime.Callers\<close> runs. A new struct
  is allocated at the end of the heap.
\<close>

definition New ::
  "nat \<Rightarrow> goint \<Rightarrow> uintptr list \<Rightarrow> heap \<Rightarrow> iface \<Rightarrow> panic + (error \<times> heap)" where
  "New avail MaxStackDepth cs h e =
     (let err = as_error e in
      case makeslice avail MaxStackDepth of
        Some p \<Rightarrow> Inl p
      | None \<Rightarrow>
        (let stk = Callers 2 (nat (sint MaxStackDepth)) cs in
         Inr (Some (ErrorPtr (Addr (length h))),
              h @ [\<lparr>Err = Some err, stack = stk, frames = None, prefix = []\<rparr>])))"

definition wrap ::
  "nat \<Rightarrow> goint \<Rightarrow> uintptr list \<Rightarrow> heap \<Rightarrow> iface \<Rightarrow> goint \<Rightarrow> panic + (ref \<times> heap)" where
  "wrap avail MaxStackDepth cs h e skip =
     (case e of
        ErrVal (ErrorPtr p) \<Rightarrow> Inr (p, h)
      | _ \<Rightarrow>
        (let err = as_error e in
         case makeslice avail MaxStackDepth of
           Some p \<Rightarrow> Inl p
         | None \<Rightarrow>
           (let stk = Callers (sint (3 + skip)) (nat (sint MaxStackDepth)) cs in
            Inr (Addr (length h),
                 h @ [\<lparr>Err = Some err, stack = stk, frames = None, prefix = []\<rparr>]))))"

definition Wrap :: "nat \<Rightarrow> goint \<Rightarrow> uintptr list \<Rightarrow> heap \<Rightarrow> iface \<Rightarrow> goint \<Rightarrow> panic + (error \<times> heap)" where
  "Wrap avail MaxStackDepth cs h e skip =
     (if e = NilIface then Inr (None, h)
      else case wrap avail MaxStackDepth cs h e skip of
             Inl p \<Rightarrow> Inl p
           | Inr (r, h') \<Rightarrow> Inr (Some (ErrorPtr r), h'))"

definition WrapPrefix ::
  "nat \<Rightarrow> goint \<Rightarrow> uintptr list \<Rightarrow> heap \<Rightarrow> iface \<Rightarrow> string \<Rightarrow> goint
     \<Rightarrow> panic + (error \<times> heap)" where
  "WrapPrefix avail MaxStackDepth cs h e pfx skip =
     (if e = NilIface then Inr (None, h)
      else case wrap avail MaxStackDepth cs h e skip of
             Inl p \<Rightarrow> Inl p
           | Inr (r, h') \<Rightarrow>
             (case deref h' r of
                None \<Rightarrow> Inl NilDereference
              | Some err \<Rightarrow>
                (let pfx' = (if prefix err \<noteq> [] then Sprintf_colon pfx (prefix err) else pfx) in
                 Inr (Some (ErrorPtr (Addr (length h'))),
                      h' @ [\<lparr>Err = Err err, stack = stack err, frames = None, prefix = pfx'\<rparr>]))))"

subsection \<open>Methods of \<^verbatim>\<open>*Error\<close>\<close>

text \<open>
  \<^verbatim>\<open>e.Error()\<close> on a value of the interface \<^verbatim>\<open>error\<close>. On a \<^verbatim>\<open>*Error\<close> it is the
  method \<^verbatim>\<open>(*Error).Error\<close>, which calls \<^verbatim>\<open>err.Err.Error()\<close> in turn: the chain of
  \<^verbatim>\<open>Err\<close> fields can be of any length, and a cyclic one never returns. The first
  argument bounds the number of nested calls of \<^verbatim>\<open>(*Error).Error\<close>; \<open>None\<close> says
  that the bound was reached. A method call on the nil interface panics.
\<close>

fun error_Error :: "nat \<Rightarrow> heap \<Rightarrow> error \<Rightarrow> (panic + string) option" where
  "error_Error n h None = Some (Inl NilDereference)"
| "error_Error n h (Some (Plain p)) = Some (Inr (plain_Error p))"
| "error_Error 0 h (Some (ErrorPtr r)) = None"
| "error_Error (Suc n) h (Some (ErrorPtr r)) =
     (case deref h r of
        None \<Rightarrow> Some (Inl NilDereference)
      | Some err \<Rightarrow>
        (case error_Error n h (Err err) of
           None \<Rightarrow> None
         | Some (Inl p) \<Rightarrow> Some (Inl p)
         | Some (Inr msg) \<Rightarrow>
             Some (Inr (if prefix err \<noteq> [] then Sprintf_colon (prefix err) msg else msg))))"

definition Error_Error :: "nat \<Rightarrow> heap \<Rightarrow> ref \<Rightarrow> (panic + string) option" where
  "Error_Error n h r = error_Error n h (Some (ErrorPtr r))"

definition Error_Callers :: "heap \<Rightarrow> ref \<Rightarrow> panic + uintptr list" where
  "Error_Callers h r =
     (case deref h r of None \<Rightarrow> Inl NilDereference | Some err \<Rightarrow> Inr (stack err))"

definition Error_Unwrap :: "heap \<Rightarrow> ref \<Rightarrow> panic + error" where
  "Error_Unwrap h r =
     (case deref h r of None \<Rightarrow> Inl NilDereference | Some err \<Rightarrow> Inr (Err err))"

text \<open>
  \<^verbatim>\<open>TypeName\<close>: the type assertion with \<open>ok\<close> does not panic on a nil \<^verbatim>\<open>Err\<close>, but
  \<^verbatim>\<open>reflect.TypeOf(nil)\<close> is nil and \<^verbatim>\<open>String()\<close> on it panics.
\<close>

definition Error_TypeName :: "heap \<Rightarrow> ref \<Rightarrow> panic + string" where
  "Error_TypeName h r =
     (case deref h r of
        None \<Rightarrow> Inl NilDereference
      | Some err \<Rightarrow>
        (case Err err of
           Some (Plain (UncaughtPanic m)) \<Rightarrow> Inr ''panic''
         | Some (Plain (Foreign t m)) \<Rightarrow> Inr t
         | Some (ErrorPtr p) \<Rightarrow> Inr ''*errors.Error''
         | None \<Rightarrow> Inl NilDereference))"

text \<open>
  The loop of \<^verbatim>\<open>StackFrames\<close>: \<^verbatim>\<open>for i, pc := range err.stack { err.frames[i] =
  NewStackFrame(pc) }\<close>, from index \<open>i\<close> on. \<^verbatim>\<open>NewStackFrame\<close> is declared outside
  error.go and is a parameter here.
\<close>

fun resolve_from :: "(uintptr \<Rightarrow> StackFrame) \<Rightarrow> nat \<Rightarrow> uintptr list \<Rightarrow> StackFrame list \<Rightarrow> StackFrame list" where
  "resolve_from NewStackFrame i [] fs = fs"
| "resolve_from NewStackFrame i (pc # pcs) fs =
     resolve_from NewStackFrame (Suc i) pcs (fs[i := NewStackFrame pc])"

text \<open>
  \<^verbatim>\<open>StackFrames\<close>: when \<^verbatim>\<open>err.frames\<close> is nil, a slice of \<open>len(err.stack)\<close> zero frames
  is made (not nil, also when empty), filled by the loop and kept in the struct; the
  slice in the struct is returned.
\<close>

definition Error_StackFrames ::
  "(uintptr \<Rightarrow> StackFrame) \<Rightarrow> heap \<Rightarrow> ref \<Rightarrow> panic + (StackFrame list \<times> heap)" where
  "Error_StackFrames NewStackFrame h r =
     (case r of
        Null \<Rightarrow> Inl NilDereference
      | Addr a \<Rightarrow>
        (case deref h r of
           None \<Rightarrow> Inl NilDereference
         | Some err \<Rightarrow>
           (case frames err of
              None \<Rightarrow>
                (let fs = resolve_from NewStackFrame 0 (stack err)
                            (replicate (length (stack err)) zeroFrame)
                 in Inr (fs, h[a := err\<lparr>frames := Some fs\<rparr>]))
            | Some fs \<Rightarrow> Inr (fs, h))))"

text \<open>
  The loop of \<^verbatim>\<open>Stack\<close>: \<^verbatim>\<open>buf.WriteString(frame.String())\<close> for every frame.
  \<^verbatim>\<open>StackFrame.String\<close> is declared outside error.go and is a parameter here.
\<close>

fun write_frames :: "(StackFrame \<Rightarrow> string) \<Rightarrow> StackFrame list \<Rightarrow> string \<Rightarrow> string" where
  "write_frames String [] buf = buf"
| "write_frames String (f # fs) buf = write_frames String fs (buf @ String f)"

definition Error_Stack ::
  "(uintptr \<Rightarrow> StackFrame) \<Rightarrow> (StackFrame \<Rightarrow> string) \<Rightarrow> heap \<Rightarrow> ref \<Rightarrow> panic + (string \<times> heap)" where
  "Error_Stack NewStackFrame String h r =
     (case Error_StackFrames NewStackFrame h r of
        Inl p \<Rightarrow> Inl p
      | Inr (fs, h') \<Rightarrow> Inr (write_frames String fs [], h'))"

text \<open>
  \<^verbatim>\<open>ErrorStack\<close>: the operands of the concatenation are evaluated from left to right,
  so a panic of \<^verbatim>\<open>TypeName\<close> or of \<^verbatim>\<open>Error\<close> comes before any frame is resolved.
\<close>

definition Error_ErrorStack ::
  "nat \<Rightarrow> (uintptr \<Rightarrow> StackFrame) \<Rightarrow> (StackFrame \<Rightarrow> string) \<Rightarrow> heap \<Rightarrow> ref
     \<Rightarrow> (panic + (string \<times> heap)) option" where
  "Error_ErrorStack n NewStackFrame String h r =
     (case Error_TypeName h r of
        Inl p \<Rightarrow> Some (Inl p)
      | Inr t \<Rightarrow>
        (case Error_Error n h r of
           None \<Rightarrow> None
         | Some (Inl p) \<Rightarrow> Some (Inl p)
         | Some (Inr msg) \<Rightarrow>
           (case Error_Stack NewStackFrame String h r of
              Inl p \<Rightarrow> Some (Inl p)
            | Inr (s, h') \<Rightarrow> Some (Inr (t @ '' '' @ msg @ [CHR 0x0A] @ s, h')))))"

text \<open>
  \<^verbatim>\<open>StackFrames\<close> stores the new slice in \<^verbatim>\<open>err.frames\<close> before its loop runs, and the
  loop writes into that slice one element at a time. This is the heap when a call that
  found \<^verbatim>\<open>err.frames\<close> nil has stored the slice and run the first \<open>k\<close> rounds of its
  loop: what any other reader of the struct finds at that moment.
\<close>

definition StackFrames_interrupted ::
  "(uintptr \<Rightarrow> StackFrame) \<Rightarrow> nat \<Rightarrow> heap \<Rightarrow> ref \<Rightarrow> panic + heap" where
  "StackFrames_interrupted NewStackFrame k h r =
     (case r of
        Null \<Rightarrow> Inl NilDereference
      | Addr a \<Rightarrow>
        (case deref h r of
           None \<Rightarrow> Inl NilDereference
         | Some err \<Rightarrow>
           (case frames err of
              None \<Rightarrow>
                Inr (h[a := err\<lparr>frames :=
                       Some (resolve_from NewStackFrame 0 (take k (stack err))
                               (replicate (length (stack err)) zeroFrame))\<rparr>])
            | Some fs \<Rightarrow> Inr h)))"

text \<open>
  Modelled from the spec: \<^verbatim>\<open>NewStackFrame\<close> is declared outside error.go. This is the
  frame it gives for a program counter without symbol information: the location, and
  empty fields.
\<close>

definition placeholderFrame :: "uintptr \<Rightarrow> StackFrame" where
  "placeholderFrame pc = \<lparr>location = pc, functionName = [], fileName = [], lineNumber = 0\<rparr>"

subsection \<open>Nesting\<close>

text \<open>
  An \<^verbatim>\<open>Error\<close> is nested when its \<^verbatim>\<open>Err\<close> field holds a \<^verbatim>\<open>*Error\<close>. A heap has no
  nesting when none of its structs is nested.
\<close>

definition wraps_Error :: "Error \<Rightarrow> bool" where
  "wraps_Error x = (case Err x of Some (ErrorPtr p) \<Rightarrow> True | _ \<Rightarrow> False)"

definition no_nesting :: "heap \<Rightarrow> bool" where
  "no_nesting h = list_all (\<lambda>x. \<not> wraps_Error x) h"

section \<open>Properties\<close>

subsection \<open>Iteration and the bound on nested calls\<close>

lemma resolve_from_eq:
  "i + length pcs \<le> length fs \<Longrightarrow>
   resolve_from N i pcs fs = take i fs @ map N pcs @ drop (i + length pcs) fs"
proof (induction pcs arbitrary: i fs)
  case Nil
  then show ?case by simp
next
  case (Cons pc pcs)
  have lt: "i < length fs" using Cons.prems by simp
  have a: "take (Suc i) (fs[i := N pc]) = take i fs @ [N pc]"
    using lt by (simp add: take_Suc_conv_app_nth)
  have b: "drop (Suc i + length pcs) (fs[i := N pc]) = drop (i + length (pc # pcs)) fs"
    by simp
  have "resolve_from N i (pc # pcs) fs = resolve_from N (Suc i) pcs (fs[i := N pc])"
    by simp
  also have "\<dots> = take (Suc i) (fs[i := N pc]) @ map N pcs
                    @ drop (Suc i + length pcs) (fs[i := N pc])"
    using Cons.prems by (intro Cons.IH) simp
  finally show ?case unfolding a b by simp
qed

lemma resolve_from_all:
  "resolve_from N 0 pcs (replicate (length pcs) z) = map N pcs"
  by (simp add: resolve_from_eq)

lemma write_frames_eq: "write_frames S fs buf = buf @ concat (map S fs)"
  by (induction fs arbitrary: buf) simp_all

lemma error_Error_heap_mono:
  "error_Error n h e = Some (Inr m) \<Longrightarrow> error_Error n (h @ h') e = Some (Inr m)"
proof (induction n h e arbitrary: m rule: error_Error.induct)
  case (4 n h r)
  then show ?case
    by (cases r) (auto split: option.splits sum.splits if_splits simp: nth_append)
qed simp_all

lemma error_Error_fuel_mono:
  "error_Error n h e = Some v \<Longrightarrow> error_Error (Suc n) h e = Some v"
proof (induction n h e arbitrary: v rule: error_Error.induct)
  case (4 n h r)
  then show ?case
    by (cases r) (auto split: option.splits sum.splits if_splits)
qed simp_all

lemma StackFrames_first:
  "deref h (Addr a) = Some x \<Longrightarrow> frames x = None \<Longrightarrow>
   Error_StackFrames N h (Addr a) =
     Inr (map N (stack x), h[a := x\<lparr>frames := Some (map N (stack x))\<rparr>])"
  by (simp add: Error_StackFrames_def resolve_from_all Let_def)


subsection \<open>Reading the heap, and what the constructors allocate\<close>

lemma makeslice_None:
  "makeslice avail n = None
     \<longleftrightarrow> 0 \<le> sint n \<and> 8 * nat (sint n) \<le> maxAlloc \<and> 8 * nat (sint n) \<le> avail"
  by (auto simp: makeslice_def)

lemma New_returns:
  "makeslice avail MaxStackDepth = None \<Longrightarrow>
   New avail MaxStackDepth cs h e =
     Inr (Some (ErrorPtr (Addr (length h))),
          h @ [\<lparr>Err = Some (as_error e), stack = Callers 2 (nat (sint MaxStackDepth)) cs,
                 frames = None, prefix = []\<rparr>])"
  by (simp add: New_def)

lemma New_Inr:
  "New avail MaxStackDepth cs h e = Inr (g, h') \<Longrightarrow>
   g = Some (ErrorPtr (Addr (length h)))
   \<and> h' = h @ [\<lparr>Err = Some (as_error e), stack = Callers 2 (nat (sint MaxStackDepth)) cs,
                   frames = None, prefix = []\<rparr>]"
  by (auto simp: New_def Let_def split: option.splits)

lemma wrap_ptr: "wrap avail MaxStackDepth cs h (ErrVal (ErrorPtr p)) skip = Inr (p, h)"
  by (simp add: wrap_def)

lemma wrap_returns:
  "makeslice avail MaxStackDepth = None \<Longrightarrow> \<forall>p. e \<noteq> ErrVal (ErrorPtr p) \<Longrightarrow>
   wrap avail MaxStackDepth cs h e skip =
     Inr (Addr (length h),
          h @ [\<lparr>Err = Some (as_error e),
                 stack = Callers (sint (3 + skip)) (nat (sint MaxStackDepth)) cs,
                 frames = None, prefix = []\<rparr>])"
  by (cases e) (auto simp: wrap_def split: goerror.splits)

lemma wrap_Inr:
  "wrap avail MaxStackDepth cs h e skip = Inr (q, h') \<Longrightarrow> \<forall>p. e \<noteq> ErrVal (ErrorPtr p) \<Longrightarrow>
   q = Addr (length h)
   \<and> h' = h @ [\<lparr>Err = Some (as_error e),
                   stack = Callers (sint (3 + skip)) (nat (sint MaxStackDepth)) cs,
                   frames = None, prefix = []\<rparr>]"
  by (cases e) (auto simp: wrap_def Let_def split: goerror.splits option.splits)

lemma deref_in_set: "deref h r = Some x \<Longrightarrow> x \<in> set h"
  by (cases r) (auto split: if_splits)

lemma deref_append: "deref h r = Some x \<Longrightarrow> deref (h @ h') r = Some x"
  by (cases r) (auto split: if_splits simp: nth_append)

lemma deref_last: "deref (h @ [x]) (Addr (length h)) = Some x"
  by simp

lemma Error_Error_cell:
  "deref h r = Some y \<Longrightarrow> error_Error n h (Err y) = Some (Inr m) \<Longrightarrow>
   Error_Error (Suc n) h r =
     Some (Inr (if prefix y \<noteq> [] then prefix y @ '': '' @ m else m))"
  by (simp add: Error_Error_def Sprintf_colon_def)

lemma WrapPrefix_ptr:
  "deref h p = Some x \<Longrightarrow>
   WrapPrefix avail MaxStackDepth cs h (ErrVal (ErrorPtr p)) pfx skip =
     Inr (Some (ErrorPtr (Addr (length h))),
          h @ [\<lparr>Err = Err x, stack = stack x, frames = None,
                 prefix = (if prefix x \<noteq> [] then pfx @ '': '' @ prefix x else pfx)\<rparr>])"
  by (simp add: WrapPrefix_def wrap_def Sprintf_colon_def)

lemma WrapPrefix_plain:
  "makeslice avail MaxStackDepth = None \<Longrightarrow>
   WrapPrefix avail MaxStackDepth cs h (ErrVal (Plain q)) pfx skip =
     Inr (Some (ErrorPtr (Addr (Suc (length h)))),
          h @ [\<lparr>Err = Some (Plain q),
                 stack = Callers (sint (3 + skip)) (nat (sint MaxStackDepth)) cs,
                 frames = None, prefix = []\<rparr>,
               \<lparr>Err = Some (Plain q),
                 stack = Callers (sint (3 + skip)) (nat (sint MaxStackDepth)) cs,
                 frames = None, prefix = pfx\<rparr>])"
  by (simp add: WrapPrefix_def wrap_returns)

lemma no_nesting_append:
  "no_nesting (h @ [x]) = (no_nesting h \<and> \<not> wraps_Error x)"
  by (simp add: no_nesting_def)

lemma no_nesting_deref:
  "no_nesting h \<Longrightarrow> deref h r = Some x \<Longrightarrow> \<not> wraps_Error x"
  using deref_in_set [of h r x] by (auto simp: no_nesting_def list_all_iff)

lemma wraps_Error_as_error:
  "(\<forall>p. e \<noteq> ErrVal (ErrorPtr p)) \<Longrightarrow>
   \<not> wraps_Error \<lparr>Err = Some (as_error e), stack = s, frames = f, prefix = q\<rparr>"
  by (cases e) (auto simp: wraps_Error_def fmt_Errorf_def split: goerror.splits)

lemma wrap_no_nesting:
  "no_nesting h \<Longrightarrow> wrap avail MaxStackDepth cs h e skip = Inr (r, h') \<Longrightarrow> no_nesting h'"
proof (cases "\<exists>p. e = ErrVal (ErrorPtr p)")
  case True
  assume "no_nesting h" "wrap avail MaxStackDepth cs h e skip = Inr (r, h')"
  with True show ?thesis by (auto simp: wrap_def)
next
  case False
  assume nn: "no_nesting h" and w: "wrap avail MaxStackDepth cs h e skip = Inr (r, h')"
  from False have ne: "\<forall>p. e \<noteq> ErrVal (ErrorPtr p)" by simp
  from wrap_Inr [OF w ne] have "h' = h @ [\<lparr>Err = Some (as_error e),
       stack = Callers (sint (3 + skip)) (nat (sint MaxStackDepth)) cs,
       frames = None, prefix = []\<rparr>]"
    by simp
  then show ?thesis using nn wraps_Error_as_error [OF ne]
    by (simp add: no_nesting_append)
qed

subsection \<open>Resolving frames and formatting\<close>

lemma StackFrames_again:
  "Error_StackFrames N h r = Inr (fs, h1) \<Longrightarrow> Error_StackFrames N' h1 r = Inr (fs, h1)"
  by (cases r) (auto simp: Error_StackFrames_def Let_def split: if_splits option.splits)

lemma deref_map:
  "deref (map f h) r = map_option f (deref h r)"
  by (cases r) simp_all

lemma error_Error_ignores_frames:
  "error_Error n (map (\<lambda>x. x\<lparr>stack := s x, frames := f x\<rparr>) h) e = error_Error n h e"
proof (induction n h e rule: error_Error.induct)
  case (4 n h r)
  show ?case
  proof (cases "deref h r")
    case None
    then show ?thesis by (simp add: deref_map)
  next
    case (Some x)
    then show ?thesis using 4 [OF Some]
      by (simp add: deref_map split: option.splits sum.splits)
  qed
qed simp_all

lemma Error_ErrorStack_eq:
  "Error_TypeName h r = Inr t \<Longrightarrow> Error_Error n h r = Some (Inr msg) \<Longrightarrow>
   Error_StackFrames N h r = Inr (fs, h') \<Longrightarrow>
   Error_ErrorStack n N S h r
     = Some (Inr (t @ '' '' @ msg @ [CHR 0x0A] @ concat (map S fs), h'))"
  by (simp add: Error_ErrorStack_def Error_Stack_def write_frames_eq)

lemma TypeName_deref:
  "Error_TypeName h r = Inr t \<Longrightarrow> \<exists>a y. r = Addr a \<and> deref h r = Some y"
  by (cases r) (auto simp: Error_TypeName_def split: option.splits if_splits)

lemma StackFrames_returns:
  "deref h (Addr a) = Some y \<Longrightarrow>
   \<exists>fs h'. Error_StackFrames N h (Addr a) = Inr (fs, h')
          \<and> (frames y = None \<longrightarrow> fs = map N (stack y))"
  by (cases "frames y") (simp_all add: StackFrames_first, simp add: Error_StackFrames_def)

lemma ErrorStack_heap:
  "Error_ErrorStack n N S h r = Some (Inr (out, h')) \<Longrightarrow>
   \<exists>fs. Error_StackFrames N h r = Inr (fs, h')"
  by (auto simp: Error_ErrorStack_def Error_Stack_def split: sum.splits option.splits)

lemma constructors_extend:
  "(New avail MaxStackDepth cs h e = Inr (g, h') \<longrightarrow> (\<exists>hs. h' = h @ hs))
   \<and> (Wrap avail MaxStackDepth cs h e skip = Inr (g, h') \<longrightarrow> (\<exists>hs. h' = h @ hs))
   \<and> (WrapPrefix avail MaxStackDepth cs h e pfx skip = Inr (g, h') \<longrightarrow> (\<exists>hs. h' = h @ hs))"
  by (cases e) (auto simp: New_def Wrap_def WrapPrefix_def wrap_def Let_def
      split: if_splits sum.splits option.splits goerror.splits)


lemma StackFrames_interrupted_all:
  "length (stack x) \<le> k \<Longrightarrow> Error_StackFrames N h r = Inr (fs, hm) \<Longrightarrow>
   deref h r = Some x \<Longrightarrow> StackFrames_interrupted N k h r = Inr hm"
  by (cases r)
     (auto simp: Error_StackFrames_def StackFrames_interrupted_def Let_def
           split: option.splits if_splits)

lemma StackFrames_during:
  "deref h (Addr a) = Some x \<Longrightarrow> frames x = None \<Longrightarrow> k \<le> length (stack x) \<Longrightarrow>
   \<exists>hk. StackFrames_interrupted N k h (Addr a) = Inr hk
        \<and> Error_StackFrames N' hk (Addr a)
            = Inr (map N (take k (stack x)) @ replicate (length (stack x) - k) zeroFrame, hk)"
  by (auto simp: StackFrames_interrupted_def Error_StackFrames_def resolve_from_eq
           split: if_splits)

lemma error_Error_same_fields:
  "length h' = length h \<Longrightarrow>
   \<forall>i<length h. Err (h' ! i) = Err (h ! i) \<and> prefix (h' ! i) = prefix (h ! i) \<Longrightarrow>
   error_Error n h' e = error_Error n h e"
proof (induction n h e rule: error_Error.induct)
  case (4 n h r)
  show ?case
  proof (cases r)
    case Null
    then show ?thesis by simp
  next
    case (Addr a)
    show ?thesis
    proof (cases "a < length h")
      case True
      then have d: "deref h r = Some (h ! a)" using Addr by simp
      have "error_Error n h' (Err (h ! a)) = error_Error n h (Err (h ! a))"
        using 4 (1) [OF d] 4 (2, 3) by simp
      then show ?thesis using True Addr 4 (2, 3)
        by (simp split: option.splits sum.splits)
    next
      case False
      then show ?thesis using Addr 4 (2) by simp
    qed
  qed
qed simp_all

lemma StackFrames_same_fields:
  "Error_StackFrames N h r = Inr (fs, hm) \<Longrightarrow>
   length hm = length h
   \<and> (\<forall>i<length h. Err (hm ! i) = Err (h ! i) \<and> prefix (hm ! i) = prefix (h ! i))"
  by (cases r)
     (auto simp: Error_StackFrames_def Let_def nth_list_update
           split: option.splits if_splits)

lemma TypeName_same_fields:
  "length h' = length h \<Longrightarrow> \<forall>i<length h. Err (h' ! i) = Err (h ! i) \<Longrightarrow>
   Error_TypeName h' r = Error_TypeName h r"
  by (cases r) (simp_all add: Error_TypeName_def)

subsection \<open>The claims\<close>

text \<open>
  C1. \<^verbatim>\<open>Wrap\<close> of a \<^verbatim>\<open>*Error\<close> returns that same pointer and leaves the heap as it is:
  nothing is allocated and no stack is captured. So wrapping the result of \<^verbatim>\<open>Wrap\<close>
  again returns that result, identical as a reference, whatever the second call's
  skip, call stack, \<^verbatim>\<open>MaxStackDepth\<close> and memory are; and the first \<^verbatim>\<open>Wrap\<close> does
  return whenever its \<^verbatim>\<open>make\<close> succeeds.
\<close>

theorem Wrap_idempotent:
  "Wrap avail MaxStackDepth cs h (ErrVal (ErrorPtr p)) skip = Inr (Some (ErrorPtr p), h)
   \<and> (Wrap avail MaxStackDepth cs h e skip = Inr (ra, ha)
        \<longrightarrow> Wrap avail' MaxStackDepth' cs' ha (to_iface ra) skip' = Inr (ra, ha))
   \<and> (makeslice avail MaxStackDepth = None
        \<longrightarrow> (\<exists>ra ha. Wrap avail MaxStackDepth cs h e skip = Inr (ra, ha)))"
proof (intro conjI impI)
  show "Wrap avail MaxStackDepth cs h (ErrVal (ErrorPtr p)) skip = Inr (Some (ErrorPtr p), h)"
    by (simp add: Wrap_def wrap_def)
next
  assume w: "Wrap avail MaxStackDepth cs h e skip = Inr (ra, ha)"
  show "Wrap avail' MaxStackDepth' cs' ha (to_iface ra) skip' = Inr (ra, ha)"
  proof (cases ra)
    case None
    then show ?thesis by (simp add: Wrap_def)
  next
    case (Some g)
    with w obtain r where "g = ErrorPtr r"
      by (auto simp: Wrap_def split: if_splits sum.splits)
    with Some show ?thesis by (simp add: Wrap_def wrap_def)
  qed
next
  assume m: "makeslice avail MaxStackDepth = None"
  show "\<exists>ra ha. Wrap avail MaxStackDepth cs h e skip = Inr (ra, ha)"
  proof (cases "\<exists>p. e = ErrVal (ErrorPtr p)")
    case True
    then show ?thesis by (auto simp: Wrap_def wrap_ptr)
  next
    case False
    then have "\<forall>p. e \<noteq> ErrVal (ErrorPtr p)" by simp
    from wrap_returns [OF m this] show ?thesis by (simp add: Wrap_def)
  qed
qed

theorem Wrap_idempotent_witness:
  "makeslice 65536 50 = None
   \<and> Wrap 65536 50 [1, 2, 3, 4, 5] [] (ErrVal (Plain (Foreign ''*errors.errorString'' ''boom''))) 0
     = Inr (Some (ErrorPtr (Addr 0)), [\<lparr>Err = Some (Plain (Foreign ''*errors.errorString'' ''boom'')), stack = [4, 5], frames = None, prefix = []\<rparr>])
   \<and> Wrap 0 (- 1) [1, 2, 3, 4, 5, 6] [\<lparr>Err = Some (Plain (Foreign ''*errors.errorString'' ''boom'')), stack = [4, 5], frames = None, prefix = []\<rparr>] (to_iface (Some (ErrorPtr (Addr 0)))) 0
     = Inr (Some (ErrorPtr (Addr 0)), [\<lparr>Err = Some (Plain (Foreign ''*errors.errorString'' ''boom'')), stack = [4, 5], frames = None, prefix = []\<rparr>])"
proof -
  have m: "makeslice 65536 50 = None"
    by (simp add: makeslice_def maxAlloc_def)
  have first:
    "Wrap 65536 50 [1, 2, 3, 4, 5] [] (ErrVal (Plain (Foreign ''*errors.errorString'' ''boom''))) 0
       = Inr (Some (ErrorPtr (Addr 0)), [\<lparr>Err = Some (Plain (Foreign ''*errors.errorString'' ''boom'')), stack = [4, 5], frames = None, prefix = []\<rparr>])"
    by (simp add: Wrap_def wrap_returns [OF m] Callers_def)
  from Wrap_idempotent [where avail = 65536 and MaxStackDepth = 50
      and cs = "[1, 2, 3, 4, 5]" and h = "[]" and e = "ErrVal (Plain (Foreign ''*errors.errorString'' ''boom''))" and skip = 0
      and ra = "Some (ErrorPtr (Addr 0))" and ha = "[\<lparr>Err = Some (Plain (Foreign ''*errors.errorString'' ''boom'')), stack = [4, 5], frames = None, prefix = []\<rparr>]"
      and avail' = 0 and MaxStackDepth' = "- 1" and cs' = "[1, 2, 3, 4, 5, 6]"
      and skip' = 0] first m
  show ?thesis by simp
qed




text \<open>
  C3. For an error \<open>e\<close> that is not nil and not a \<^verbatim>\<open>*Error\<close>, and for every skip,
  \<^verbatim>\<open>Wrap(e, skip)\<close> returns a new \<^verbatim>\<open>*Error\<close> whose \<^verbatim>\<open>Unwrap()\<close> is \<open>e\<close>, whenever the
  \<^verbatim>\<open>make\<close> of the stack buffer succeeds; and whenever \<^verbatim>\<open>Wrap\<close> returns at all, what it
  returns is a \<^verbatim>\<open>*Error\<close> whose \<^verbatim>\<open>Unwrap()\<close> is \<open>e\<close>.
\<close>

theorem Wrap_plain_Unwrap:
  "(makeslice avail MaxStackDepth = None \<longrightarrow>
      (\<exists>h'. Wrap avail MaxStackDepth cs h (ErrVal (Plain p)) skip
               = Inr (Some (ErrorPtr (Addr (length h))), h')
           \<and> Error_Unwrap h' (Addr (length h)) = Inr (Some (Plain p))))
   \<and> (Wrap avail MaxStackDepth cs h (ErrVal (Plain p)) skip = Inr (g, h')
        \<longrightarrow> (\<exists>q. g = Some (ErrorPtr q) \<and> Error_Unwrap h' q = Inr (Some (Plain p))))"
proof (intro conjI impI)
  assume m: "makeslice avail MaxStackDepth = None"
  have "\<forall>q. ErrVal (Plain p) \<noteq> ErrVal (ErrorPtr q)" by simp
  from wrap_returns [OF m this]
  show "\<exists>h'. Wrap avail MaxStackDepth cs h (ErrVal (Plain p)) skip
               = Inr (Some (ErrorPtr (Addr (length h))), h')
           \<and> Error_Unwrap h' (Addr (length h)) = Inr (Some (Plain p))"
    by (simp add: Wrap_def Error_Unwrap_def)
next
  assume "Wrap avail MaxStackDepth cs h (ErrVal (Plain p)) skip = Inr (g, h')"
  then obtain q where w: "wrap avail MaxStackDepth cs h (ErrVal (Plain p)) skip = Inr (q, h')"
    and g: "g = Some (ErrorPtr q)"
    by (auto simp: Wrap_def split: sum.splits)
  have "\<forall>r. ErrVal (Plain p) \<noteq> ErrVal (ErrorPtr r)" by simp
  from wrap_Inr [OF w this] g
  show "\<exists>q. g = Some (ErrorPtr q) \<and> Error_Unwrap h' q = Inr (Some (Plain p))"
    by (simp add: Error_Unwrap_def)
qed

theorem Wrap_plain_Unwrap_witness:
  "makeslice 65536 50 = None
   \<and> (\<exists>h'. Wrap 65536 50 [1, 2, 3, 4, 5] [] (ErrVal (Plain (Foreign ''*fs.PathError'' ''boom''))) 1
              = Inr (Some (ErrorPtr (Addr 0)), h')
          \<and> Error_Unwrap h' (Addr 0) = Inr (Some (Plain (Foreign ''*fs.PathError'' ''boom''))))"
proof -
  have m: "makeslice 65536 50 = None"
    by (simp add: makeslice_def maxAlloc_def)
  from Wrap_plain_Unwrap [where avail = 65536 and MaxStackDepth = 50
      and cs = "[1, 2, 3, 4, 5]" and h = "[]" and p = "Foreign ''*fs.PathError'' ''boom''"
      and skip = 1] m
  show ?thesis by simp
qed

text \<open>
  C4. \<^verbatim>\<open>WrapPrefix\<close> of a \<^verbatim>\<open>*Error\<close> whose prefix is not empty returns a new \<^verbatim>\<open>*Error\<close>
  with the \<^verbatim>\<open>Err\<close> and the stack of the one given, and with the new prefix, \<^verbatim>\<open>": "\<close>
  and the old prefix as its prefix. So for an error \<open>e\<close> whose message is \<open>m\<close>,
  wrapping with a prefix \<open>b\<close> that is not empty and then with \<open>a\<close> gives an error
  whose message is \<open>a\<close>, \<^verbatim>\<open>": "\<close>, \<open>b\<close>, \<^verbatim>\<open>": "\<close>, \<open>m\<close>: with \<^verbatim>\<open>"B"\<close> and
  \<^verbatim>\<open>"A"\<close> it is \<^verbatim>\<open>"A: B: "\<close> and then \<open>m\<close>. Both calls return whenever the
  \<^verbatim>\<open>make\<close> of the first one succeeds (the second makes no slice), and the message is
  computed within one more nested call than the message of \<open>e\<close> needs.
\<close>

theorem WrapPrefix_composes:
  "(deref h p = Some x \<and> prefix x \<noteq> [] \<longrightarrow>
      WrapPrefix avail MaxStackDepth cs h (ErrVal (ErrorPtr p)) pfx skip =
        Inr (Some (ErrorPtr (Addr (length h))),
             h @ [\<lparr>Err = Err x, stack = stack x, frames = None,
                    prefix = pfx @ '': '' @ prefix x\<rparr>]))
   \<and> (makeslice avail MaxStackDepth = None \<and> b \<noteq> [] \<and> error_Error n h (Some g) = Some (Inr m) \<longrightarrow>
        (\<exists>r1 h1 r2 h2.
           WrapPrefix avail MaxStackDepth cs h (ErrVal g) b skip = Inr (Some (ErrorPtr r1), h1)
         \<and> WrapPrefix avail' MaxStackDepth' cs' h1 (ErrVal (ErrorPtr r1)) a skip'
             = Inr (Some (ErrorPtr r2), h2)
         \<and> Error_Error (Suc n) h2 r2 = Some (Inr (a @ '': '' @ b @ '': '' @ m))))"
proof (intro conjI impI)
  assume "deref h p = Some x \<and> prefix x \<noteq> []"
  then show "WrapPrefix avail MaxStackDepth cs h (ErrVal (ErrorPtr p)) pfx skip =
        Inr (Some (ErrorPtr (Addr (length h))),
             h @ [\<lparr>Err = Err x, stack = stack x, frames = None,
                    prefix = pfx @ '': '' @ prefix x\<rparr>])"
    by (simp add: WrapPrefix_ptr)
next
  assume asm: "makeslice avail MaxStackDepth = None \<and> b \<noteq> [] \<and> error_Error n h (Some g) = Some (Inr m)"
  then have md: "makeslice avail MaxStackDepth = None" and b: "b \<noteq> []"
    and msg: "error_Error n h (Some g) = Some (Inr m)" by simp_all
  show "\<exists>r1 h1 r2 h2.
           WrapPrefix avail MaxStackDepth cs h (ErrVal g) b skip = Inr (Some (ErrorPtr r1), h1)
         \<and> WrapPrefix avail' MaxStackDepth' cs' h1 (ErrVal (ErrorPtr r1)) a skip'
             = Inr (Some (ErrorPtr r2), h2)
         \<and> Error_Error (Suc n) h2 r2 = Some (Inr (a @ '': '' @ b @ '': '' @ m))"
  proof (cases g)
    case (Plain q)
    define stk where "stk = Callers (sint (3 + skip)) (nat (sint MaxStackDepth)) cs"
    define x0 where "x0 = \<lparr>Err = Some (Plain q), stack = stk, frames = None, prefix = []\<rparr>"
    define x1 where "x1 = \<lparr>Err = Some (Plain q), stack = stk, frames = None, prefix = b\<rparr>"
    define x2 where "x2 = \<lparr>Err = Some (Plain q), stack = stk, frames = None,
                           prefix = a @ '': '' @ b\<rparr>"
    have m: "m = plain_Error q" using msg Plain by simp
    have w1: "WrapPrefix avail MaxStackDepth cs h (ErrVal g) b skip
                = Inr (Some (ErrorPtr (Addr (Suc (length h)))), h @ [x0, x1])"
      using WrapPrefix_plain [OF md] Plain by (simp add: x0_def x1_def stk_def)
    have d1: "deref (h @ [x0, x1]) (Addr (Suc (length h))) = Some x1"
      by (simp add: nth_append)
    have w2: "WrapPrefix avail' MaxStackDepth' cs' (h @ [x0, x1])
                (ErrVal (ErrorPtr (Addr (Suc (length h))))) a skip'
                = Inr (Some (ErrorPtr (Addr (Suc (Suc (length h))))), (h @ [x0, x1]) @ [x2])"
      using WrapPrefix_ptr [OF d1] b by (simp add: x1_def x2_def)
    have d2: "deref ((h @ [x0, x1]) @ [x2]) (Addr (Suc (Suc (length h)))) = Some x2"
      by (simp add: nth_append)
    have "Error_Error (Suc n) ((h @ [x0, x1]) @ [x2]) (Addr (Suc (Suc (length h))))
            = Some (Inr (a @ '': '' @ b @ '': '' @ m))"
      using Error_Error_cell [OF d2, of n m] by (simp add: x2_def m)
    with w1 w2 show ?thesis by blast
  next
    case (ErrorPtr p)
    from msg ErrorPtr obtain k where n: "n = Suc k"
      by (cases n) simp_all
    from msg ErrorPtr n obtain x m0 where dx: "deref h p = Some x"
      and m0: "error_Error k h (Err x) = Some (Inr m0)"
      and m: "m = (if prefix x \<noteq> [] then prefix x @ '': '' @ m0 else m0)"
      by (auto split: option.splits sum.splits simp: Sprintf_colon_def)
    define x1 where "x1 = \<lparr>Err = Err x, stack = stack x, frames = None,
         prefix = (if prefix x \<noteq> [] then b @ '': '' @ prefix x else b)\<rparr>"
    define x2 where "x2 = \<lparr>Err = Err x, stack = stack x, frames = None,
         prefix = a @ '': '' @ prefix x1\<rparr>"
    have w1: "WrapPrefix avail MaxStackDepth cs h (ErrVal g) b skip
                = Inr (Some (ErrorPtr (Addr (length h))), h @ [x1])"
      using WrapPrefix_ptr [OF dx] ErrorPtr by (simp add: x1_def)
    have d1: "deref (h @ [x1]) (Addr (length h)) = Some x1" by simp
    have p1: "prefix x1 \<noteq> []" using b by (simp add: x1_def)
    have w2: "WrapPrefix avail' MaxStackDepth' cs' (h @ [x1]) (ErrVal (ErrorPtr (Addr (length h)))) a skip'
                = Inr (Some (ErrorPtr (Addr (Suc (length h)))), (h @ [x1]) @ [x2])"
      using WrapPrefix_ptr [OF d1] p1 by (simp add: x2_def x1_def)
    have d2: "deref ((h @ [x1]) @ [x2]) (Addr (Suc (length h))) = Some x2"
      by (simp add: nth_append)
    have "error_Error k ((h @ [x1]) @ [x2]) (Err x) = Some (Inr m0)"
      using error_Error_heap_mono [OF m0, of "[x1, x2]"] by simp
    then have "error_Error n ((h @ [x1]) @ [x2]) (Err x2) = Some (Inr m0)"
      unfolding n by (simp add: x2_def error_Error_fuel_mono)
    from Error_Error_cell [OF d2 this]
    have "Error_Error (Suc n) ((h @ [x1]) @ [x2]) (Addr (Suc (length h)))
            = Some (Inr (a @ '': '' @ b @ '': '' @ m))"
      by (simp add: x2_def x1_def m)
    with w1 w2 show ?thesis by blast
  qed
qed

theorem WrapPrefix_composes_witness:
  "WrapPrefix 65536 50 [1, 2, 3, 4, 5] [] (ErrVal (Plain (Foreign ''*errors.errorString'' ''boom''))) ''B'' 0
     = Inr (Some (ErrorPtr (Addr 1)), [\<lparr>Err = Some (Plain (Foreign ''*errors.errorString'' ''boom'')), stack = [4, 5], frames = None, prefix = []\<rparr>, \<lparr>Err = Some (Plain (Foreign ''*errors.errorString'' ''boom'')), stack = [4, 5], frames = None, prefix = ''B''\<rparr>])
   \<and> WrapPrefix 65536 50 [1, 2, 3, 4, 5] [\<lparr>Err = Some (Plain (Foreign ''*errors.errorString'' ''boom'')), stack = [4, 5], frames = None, prefix = []\<rparr>, \<lparr>Err = Some (Plain (Foreign ''*errors.errorString'' ''boom'')), stack = [4, 5], frames = None, prefix = ''B''\<rparr>] (ErrVal (ErrorPtr (Addr 1))) ''A'' 0
     = Inr (Some (ErrorPtr (Addr 2)), [\<lparr>Err = Some (Plain (Foreign ''*errors.errorString'' ''boom'')), stack = [4, 5], frames = None, prefix = []\<rparr>, \<lparr>Err = Some (Plain (Foreign ''*errors.errorString'' ''boom'')), stack = [4, 5], frames = None, prefix = ''B''\<rparr>, \<lparr>Err = Some (Plain (Foreign ''*errors.errorString'' ''boom'')), stack = [4, 5], frames = None, prefix = ''A: B''\<rparr>])
   \<and> Error_Error 1 [\<lparr>Err = Some (Plain (Foreign ''*errors.errorString'' ''boom'')), stack = [4, 5], frames = None, prefix = []\<rparr>, \<lparr>Err = Some (Plain (Foreign ''*errors.errorString'' ''boom'')), stack = [4, 5], frames = None, prefix = ''B''\<rparr>, \<lparr>Err = Some (Plain (Foreign ''*errors.errorString'' ''boom'')), stack = [4, 5], frames = None, prefix = ''A: B''\<rparr>] (Addr 2) = Some (Inr ''A: B: boom'')"
proof -
  have d: "deref [\<lparr>Err = Some (Plain (Foreign ''*errors.errorString'' ''boom'')), stack = [4, 5], frames = None, prefix = []\<rparr>, \<lparr>Err = Some (Plain (Foreign ''*errors.errorString'' ''boom'')), stack = [4, 5], frames = None, prefix = ''B''\<rparr>] (Addr 1) = Some \<lparr>Err = Some (Plain (Foreign ''*errors.errorString'' ''boom'')), stack = [4, 5], frames = None, prefix = ''B''\<rparr> \<and> prefix \<lparr>Err = Some (Plain (Foreign ''*errors.errorString'' ''boom'')), stack = [4, 5], frames = None, prefix = ''B''\<rparr> \<noteq> []"
    by simp
  have m: "makeslice 65536 50 = None \<and> ''B'' \<noteq> []
           \<and> error_Error 0 [] (Some (Plain (Foreign ''*errors.errorString'' ''boom'')))
               = Some (Inr ''boom'')"
    by (simp add: makeslice_def maxAlloc_def)
  from WrapPrefix_composes [where h = "[\<lparr>Err = Some (Plain (Foreign ''*errors.errorString'' ''boom'')), stack = [4, 5], frames = None, prefix = []\<rparr>, \<lparr>Err = Some (Plain (Foreign ''*errors.errorString'' ''boom'')), stack = [4, 5], frames = None, prefix = ''B''\<rparr>]" and p = "Addr 1" and x = "\<lparr>Err = Some (Plain (Foreign ''*errors.errorString'' ''boom'')), stack = [4, 5], frames = None, prefix = ''B''\<rparr>"
      and avail = 65536 and MaxStackDepth = 50 and cs = "[1, 2, 3, 4, 5]" and pfx = "''A''"
      and skip = 0] d
    WrapPrefix_composes [where h = "[]" and avail = 65536 and MaxStackDepth = 50
      and cs = "[1, 2, 3, 4, 5]" and b = "''B''" and skip = 0 and n = 0
      and g = "Plain (Foreign ''*errors.errorString'' ''boom'')" and m = "''boom''"
      and avail' = 65536 and MaxStackDepth' = 50 and cs' = "[1, 2, 3, 4, 5]"
      and a = "''A''" and skip' = 0] m
  show ?thesis
    by (simp add: WrapPrefix_def wrap_def makeslice_def maxAlloc_def Callers_def
        Sprintf_colon_def Error_Error_def)
qed

text \<open>
  C5. Wrapping nil gives nil: for every skip, prefix, configuration and heap,
  \<^verbatim>\<open>Wrap(nil, skip)\<close> and \<^verbatim>\<open>WrapPrefix(nil, prefix, skip)\<close> return the nil error, no
  panic and no other error, and allocate nothing.
\<close>

theorem wrap_nil_is_nil:
  "Wrap avail MaxStackDepth cs h NilIface skip = Inr (None, h)
   \<and> WrapPrefix avail MaxStackDepth cs h NilIface pfx skip = Inr (None, h)"
  by (simp add: Wrap_def WrapPrefix_def)

text \<open>
  C6. Whenever the \<^verbatim>\<open>make\<close> of the stack buffer succeeds, \<^verbatim>\<open>New\<close> returns a new
  \<^verbatim>\<open>*Error\<close>, and so does \<^verbatim>\<open>wrap\<close> on anything but a \<^verbatim>\<open>*Error\<close>, however deep the call
  stack is. The stack kept is the first \<^verbatim>\<open>MaxStackDepth\<close> program counters above the
  skipped frames: never more than \<^verbatim>\<open>MaxStackDepth\<close> of them, and exactly that many when
  the call stack has that many or more. The depth of the call stack makes neither of
  them fail: \<^verbatim>\<open>New\<close> and \<^verbatim>\<open>wrap\<close> end without a result only when \<^verbatim>\<open>make\<close> does.
\<close>

theorem captured_stack_bounded:
  "(makeslice avail MaxStackDepth = None \<longrightarrow>
     (\<exists>x. New avail MaxStackDepth cs h e = Inr (Some (ErrorPtr (Addr (length h))), h @ [x])
         \<and> stack x = take (nat (sint MaxStackDepth)) (drop 2 cs)
         \<and> length (stack x) \<le> nat (sint MaxStackDepth)
         \<and> (nat (sint MaxStackDepth) \<le> length (drop 2 cs)
              \<longrightarrow> length (stack x) = nat (sint MaxStackDepth))))
   \<and> (makeslice avail MaxStackDepth = None \<and> (\<forall>p. e \<noteq> ErrVal (ErrorPtr p)) \<longrightarrow>
       (\<exists>x. wrap avail MaxStackDepth cs h e skip = Inr (Addr (length h), h @ [x])
          \<and> stack x = take (nat (sint MaxStackDepth)) (drop (nat (sint (3 + skip))) cs)
          \<and> length (stack x) \<le> nat (sint MaxStackDepth)
          \<and> (nat (sint MaxStackDepth) \<le> length (drop (nat (sint (3 + skip))) cs)
               \<longrightarrow> length (stack x) = nat (sint MaxStackDepth))))
   \<and> (New avail MaxStackDepth cs h e = Inl f \<longrightarrow> makeslice avail MaxStackDepth = Some f)
   \<and> (wrap avail MaxStackDepth cs h e skip = Inl f \<longrightarrow> makeslice avail MaxStackDepth = Some f)"
proof (intro conjI impI)
  assume m: "makeslice avail MaxStackDepth = None"
  show "\<exists>x. New avail MaxStackDepth cs h e = Inr (Some (ErrorPtr (Addr (length h))), h @ [x])
         \<and> stack x = take (nat (sint MaxStackDepth)) (drop 2 cs)
         \<and> length (stack x) \<le> nat (sint MaxStackDepth)
         \<and> (nat (sint MaxStackDepth) \<le> length (drop 2 cs)
              \<longrightarrow> length (stack x) = nat (sint MaxStackDepth))"
    by (simp add: New_returns [OF m] Callers_def)
next
  assume "makeslice avail MaxStackDepth = None \<and> (\<forall>p. e \<noteq> ErrVal (ErrorPtr p))"
  then have m: "makeslice avail MaxStackDepth = None" and ne: "\<forall>p. e \<noteq> ErrVal (ErrorPtr p)"
    by simp_all
  show "\<exists>x. wrap avail MaxStackDepth cs h e skip = Inr (Addr (length h), h @ [x])
          \<and> stack x = take (nat (sint MaxStackDepth)) (drop (nat (sint (3 + skip))) cs)
          \<and> length (stack x) \<le> nat (sint MaxStackDepth)
          \<and> (nat (sint MaxStackDepth) \<le> length (drop (nat (sint (3 + skip))) cs)
               \<longrightarrow> length (stack x) = nat (sint MaxStackDepth))"
    by (simp add: wrap_returns [OF m ne] Callers_def)
next
  assume "New avail MaxStackDepth cs h e = Inl f"
  then show "makeslice avail MaxStackDepth = Some f"
    by (auto simp: New_def Let_def split: option.splits)
next
  assume "wrap avail MaxStackDepth cs h e skip = Inl f"
  then show "makeslice avail MaxStackDepth = Some f"
    by (cases e) (auto simp: wrap_def Let_def split: option.splits goerror.splits)
qed

theorem captured_stack_bounded_witness:
  "makeslice 65536 2 = None
   \<and> New 65536 2 [1, 2, 3, 4, 5, 6] [] (NonErr ''boom'')
       = Inr (Some (ErrorPtr (Addr 0)),
              [\<lparr>Err = Some (Plain (Foreign ''*errors.errorString'' ''boom'')),
                stack = [3, 4], frames = None, prefix = []\<rparr>])
   \<and> wrap 65536 2 [1, 2, 3, 4, 5, 6] [] (NonErr ''boom'') 0
       = Inr (Addr 0,
              [\<lparr>Err = Some (Plain (Foreign ''*errors.errorString'' ''boom'')),
                stack = [4, 5], frames = None, prefix = []\<rparr>])"
proof -
  have m: "makeslice 65536 2 = None"
    by (simp add: makeslice_def maxAlloc_def)
  have ne: "\<forall>p. NonErr ''boom'' \<noteq> ErrVal (ErrorPtr p)"
    by simp
  from captured_stack_bounded [where avail = 65536 and MaxStackDepth = 2
      and cs = "[1, 2, 3, 4, 5, 6]" and h = "[]" and e = "NonErr ''boom''" and skip = 0
      and f = NilDereference] m ne
  have "(\<exists>x. New 65536 2 [1, 2, 3, 4, 5, 6] [] (NonErr ''boom'')
                = Inr (Some (ErrorPtr (Addr 0)), [x]) \<and> length (stack x) = 2)
        \<and> (\<exists>x. wrap 65536 2 [1, 2, 3, 4, 5, 6] [] (NonErr ''boom'') 0
                = Inr (Addr 0, [x]) \<and> length (stack x) = 2)"
    by (simp add: Callers_def) blast
  with m show ?thesis
    by (simp add: New_returns wrap_returns Callers_def fmt_Errorf_def)
qed

text \<open>
  C7. An \<^verbatim>\<open>Error\<close> made by \<^verbatim>\<open>New\<close>, \<^verbatim>\<open>wrap\<close> or \<^verbatim>\<open>WrapPrefix\<close> has nil frames, and
  these functions only add to the heap, so the frames stay nil until \<^verbatim>\<open>StackFrames\<close>
  runs, which \<^verbatim>\<open>Stack\<close> and \<^verbatim>\<open>ErrorStack\<close> do through it. The first \<^verbatim>\<open>StackFrames\<close>
  resolves every program counter of the stack, in order, one frame for each, keeps the
  frames in the struct and returns them. After any \<^verbatim>\<open>StackFrames\<close> that returned, the
  frames are in the struct, and every later call returns the same frames and leaves the
  heap as it is, whatever \<^verbatim>\<open>NewStackFrame\<close> would compute then: nothing is resolved again.
\<close>

theorem StackFrames_memoized:
  "(deref h (Addr a) = Some x \<and> frames x = None \<longrightarrow>
      Error_StackFrames N h (Addr a)
        = Inr (map N (stack x), h[a := x\<lparr>frames := Some (map N (stack x))\<rparr>])
    \<and> Error_Stack N S h (Addr a)
        = Inr (concat (map S (map N (stack x))), h[a := x\<lparr>frames := Some (map N (stack x))\<rparr>])
    \<and> length (map N (stack x)) = length (stack x))
   \<and> (Error_StackFrames N h r = Inr (fs, hm) \<longrightarrow>
        (\<exists>y. deref hm r = Some y \<and> frames y = Some fs)
      \<and> Error_StackFrames N' hm r = Inr (fs, hm)
      \<and> Error_Stack N' S hm r = Inr (concat (map S fs), hm))
   \<and> (New avail MaxStackDepth cs h e = Inr (Some (ErrorPtr q), h') \<longrightarrow>
        (\<exists>y. deref h' q = Some y \<and> frames y = None))
   \<and> ((\<forall>p. e \<noteq> ErrVal (ErrorPtr p)) \<and> wrap avail MaxStackDepth cs h e skip = Inr (q, h') \<longrightarrow>
        (\<exists>y. deref h' q = Some y \<and> frames y = None))
   \<and> (WrapPrefix avail MaxStackDepth cs h e pfx skip = Inr (Some (ErrorPtr q), h') \<longrightarrow>
        (\<exists>y. deref h' q = Some y \<and> frames y = None))
   \<and> (New avail MaxStackDepth cs h e = Inr (g, h') \<or> Wrap avail MaxStackDepth cs h e skip = Inr (g, h')
        \<or> WrapPrefix avail MaxStackDepth cs h e pfx skip = Inr (g, h') \<longrightarrow> (\<exists>hs. h' = h @ hs))
   \<and> (Error_ErrorStack n N S h r = Some (Inr (out, hn)) \<longrightarrow>
        (\<exists>gs. Error_StackFrames N h r = Inr (gs, hn)))"
proof (intro conjI impI)
  assume a: "deref h (Addr a) = Some x \<and> frames x = None"
  then show "Error_StackFrames N h (Addr a)
        = Inr (map N (stack x), h[a := x\<lparr>frames := Some (map N (stack x))\<rparr>])"
    by (simp add: StackFrames_first)
  from a show "Error_Stack N S h (Addr a)
        = Inr (concat (map S (map N (stack x))), h[a := x\<lparr>frames := Some (map N (stack x))\<rparr>])"
    by (simp add: Error_Stack_def StackFrames_first write_frames_eq)
next
  show "length (map N (stack x)) = length (stack x)" by simp
next
  assume a: "Error_StackFrames N h r = Inr (fs, hm)"
  then show "\<exists>y. deref hm r = Some y \<and> frames y = Some fs"
    by (cases r) (auto simp: Error_StackFrames_def Let_def split: if_splits option.splits)
  from StackFrames_again [OF a]
  show again: "Error_StackFrames N' hm r = Inr (fs, hm)" .
  then show "Error_Stack N' S hm r = Inr (concat (map S fs), hm)"
    by (simp add: Error_Stack_def write_frames_eq)
next
  assume "New avail MaxStackDepth cs h e = Inr (Some (ErrorPtr q), h')"
  from New_Inr [OF this] show "\<exists>y. deref h' q = Some y \<and> frames y = None"
    by simp
next
  assume "(\<forall>p. e \<noteq> ErrVal (ErrorPtr p)) \<and> wrap avail MaxStackDepth cs h e skip = Inr (q, h')"
  then have ne: "\<forall>p. e \<noteq> ErrVal (ErrorPtr p)"
    and w: "wrap avail MaxStackDepth cs h e skip = Inr (q, h')" by simp_all
  from wrap_Inr [OF w ne] show "\<exists>y. deref h' q = Some y \<and> frames y = None"
    by simp
next
  assume "WrapPrefix avail MaxStackDepth cs h e pfx skip = Inr (Some (ErrorPtr q), h')"
  then show "\<exists>y. deref h' q = Some y \<and> frames y = None"
    by (auto simp: WrapPrefix_def Let_def split: if_splits sum.splits option.splits)
next
  assume "New avail MaxStackDepth cs h e = Inr (g, h') \<or> Wrap avail MaxStackDepth cs h e skip = Inr (g, h')
        \<or> WrapPrefix avail MaxStackDepth cs h e pfx skip = Inr (g, h')"
  then show "\<exists>hs. h' = h @ hs"
    using constructors_extend [of avail MaxStackDepth cs h e g h' skip pfx] by blast
next
  assume "Error_ErrorStack n N S h r = Some (Inr (out, hn))"
  then show "\<exists>gs. Error_StackFrames N h r = Inr (gs, hn)"
    by (rule ErrorStack_heap)
qed

theorem StackFrames_memoized_witness:
  "deref [\<lparr>Err = Some (Plain (Foreign ''*errors.errorString'' ''boom'')), stack = [4, 5], frames = None, prefix = []\<rparr>] (Addr 0) = Some \<lparr>Err = Some (Plain (Foreign ''*errors.errorString'' ''boom'')), stack = [4, 5], frames = None, prefix = []\<rparr> \<and> frames \<lparr>Err = Some (Plain (Foreign ''*errors.errorString'' ''boom'')), stack = [4, 5], frames = None, prefix = []\<rparr> = None
   \<and> Error_StackFrames (\<lambda>pc. \<lparr>location = pc, functionName = ''main.run'', fileName = ''main.go'', lineNumber = 7\<rparr>) [\<lparr>Err = Some (Plain (Foreign ''*errors.errorString'' ''boom'')), stack = [4, 5], frames = None, prefix = []\<rparr>] (Addr 0) = Inr ([\<lparr>location = 4, functionName = ''main.run'', fileName = ''main.go'', lineNumber = 7\<rparr>, \<lparr>location = 5, functionName = ''main.run'', fileName = ''main.go'', lineNumber = 7\<rparr>], [\<lparr>Err = Some (Plain (Foreign ''*errors.errorString'' ''boom'')), stack = [4, 5], frames = Some [\<lparr>location = 4, functionName = ''main.run'', fileName = ''main.go'', lineNumber = 7\<rparr>, \<lparr>location = 5, functionName = ''main.run'', fileName = ''main.go'', lineNumber = 7\<rparr>], prefix = []\<rparr>])
   \<and> Error_StackFrames (\<lambda>pc. zeroFrame) [\<lparr>Err = Some (Plain (Foreign ''*errors.errorString'' ''boom'')), stack = [4, 5], frames = Some [\<lparr>location = 4, functionName = ''main.run'', fileName = ''main.go'', lineNumber = 7\<rparr>, \<lparr>location = 5, functionName = ''main.run'', fileName = ''main.go'', lineNumber = 7\<rparr>], prefix = []\<rparr>] (Addr 0) = Inr ([\<lparr>location = 4, functionName = ''main.run'', fileName = ''main.go'', lineNumber = 7\<rparr>, \<lparr>location = 5, functionName = ''main.run'', fileName = ''main.go'', lineNumber = 7\<rparr>], [\<lparr>Err = Some (Plain (Foreign ''*errors.errorString'' ''boom'')), stack = [4, 5], frames = Some [\<lparr>location = 4, functionName = ''main.run'', fileName = ''main.go'', lineNumber = 7\<rparr>, \<lparr>location = 5, functionName = ''main.run'', fileName = ''main.go'', lineNumber = 7\<rparr>], prefix = []\<rparr>])"
proof -
  have d: "deref [\<lparr>Err = Some (Plain (Foreign ''*errors.errorString'' ''boom'')), stack = [4, 5], frames = None, prefix = []\<rparr>] (Addr 0) = Some \<lparr>Err = Some (Plain (Foreign ''*errors.errorString'' ''boom'')), stack = [4, 5], frames = None, prefix = []\<rparr> \<and> frames \<lparr>Err = Some (Plain (Foreign ''*errors.errorString'' ''boom'')), stack = [4, 5], frames = None, prefix = []\<rparr> = None"
    by simp
  from StackFrames_memoized [where h = "[\<lparr>Err = Some (Plain (Foreign ''*errors.errorString'' ''boom'')), stack = [4, 5], frames = None, prefix = []\<rparr>]" and a = 0 and x = "\<lparr>Err = Some (Plain (Foreign ''*errors.errorString'' ''boom'')), stack = [4, 5], frames = None, prefix = []\<rparr>" and N = "(\<lambda>pc. \<lparr>location = pc, functionName = ''main.run'', fileName = ''main.go'', lineNumber = 7\<rparr>)"] d
  have first: "Error_StackFrames (\<lambda>pc. \<lparr>location = pc, functionName = ''main.run'', fileName = ''main.go'', lineNumber = 7\<rparr>) [\<lparr>Err = Some (Plain (Foreign ''*errors.errorString'' ''boom'')), stack = [4, 5], frames = None, prefix = []\<rparr>] (Addr 0) = Inr ([\<lparr>location = 4, functionName = ''main.run'', fileName = ''main.go'', lineNumber = 7\<rparr>, \<lparr>location = 5, functionName = ''main.run'', fileName = ''main.go'', lineNumber = 7\<rparr>], [\<lparr>Err = Some (Plain (Foreign ''*errors.errorString'' ''boom'')), stack = [4, 5], frames = Some [\<lparr>location = 4, functionName = ''main.run'', fileName = ''main.go'', lineNumber = 7\<rparr>, \<lparr>location = 5, functionName = ''main.run'', fileName = ''main.go'', lineNumber = 7\<rparr>], prefix = []\<rparr>])"
    by simp
  from StackFrames_memoized [where h = "[\<lparr>Err = Some (Plain (Foreign ''*errors.errorString'' ''boom'')), stack = [4, 5], frames = None, prefix = []\<rparr>]" and r = "Addr 0" and N = "(\<lambda>pc. \<lparr>location = pc, functionName = ''main.run'', fileName = ''main.go'', lineNumber = 7\<rparr>)"
      and fs = "[\<lparr>location = 4, functionName = ''main.run'', fileName = ''main.go'', lineNumber = 7\<rparr>, \<lparr>location = 5, functionName = ''main.run'', fileName = ''main.go'', lineNumber = 7\<rparr>]" and hm = "[\<lparr>Err = Some (Plain (Foreign ''*errors.errorString'' ''boom'')), stack = [4, 5], frames = Some [\<lparr>location = 4, functionName = ''main.run'', fileName = ''main.go'', lineNumber = 7\<rparr>, \<lparr>location = 5, functionName = ''main.run'', fileName = ''main.go'', lineNumber = 7\<rparr>], prefix = []\<rparr>]" and N' = "\<lambda>pc. zeroFrame"] first
  have "Error_StackFrames (\<lambda>pc. zeroFrame) [\<lparr>Err = Some (Plain (Foreign ''*errors.errorString'' ''boom'')), stack = [4, 5], frames = Some [\<lparr>location = 4, functionName = ''main.run'', fileName = ''main.go'', lineNumber = 7\<rparr>, \<lparr>location = 5, functionName = ''main.run'', fileName = ''main.go'', lineNumber = 7\<rparr>], prefix = []\<rparr>] (Addr 0) = Inr ([\<lparr>location = 4, functionName = ''main.run'', fileName = ''main.go'', lineNumber = 7\<rparr>, \<lparr>location = 5, functionName = ''main.run'', fileName = ''main.go'', lineNumber = 7\<rparr>], [\<lparr>Err = Some (Plain (Foreign ''*errors.errorString'' ''boom'')), stack = [4, 5], frames = Some [\<lparr>location = 4, functionName = ''main.run'', fileName = ''main.go'', lineNumber = 7\<rparr>, \<lparr>location = 5, functionName = ''main.run'', fileName = ''main.go'', lineNumber = 7\<rparr>], prefix = []\<rparr>])"
    by blast
  with d first show ?thesis by simp
qed

text \<open>
  C8. \<^verbatim>\<open>Error()\<close> does not depend on any stack or frames in the heap: it is the message
  of \<^verbatim>\<open>Err\<close>, after the prefix and \<^verbatim>\<open>": "\<close> when there is a prefix. It returns, and so
  does \<^verbatim>\<open>TypeName\<close>, when \<^verbatim>\<open>Err\<close> is not a \<^verbatim>\<open>*Error\<close>. Whenever \<^verbatim>\<open>TypeName\<close> and
  \<^verbatim>\<open>Error\<close> return, \<^verbatim>\<open>ErrorStack\<close> returns the type name, a space, the message, a
  newline and the \<^verbatim>\<open>String()\<close> of every frame in order: when there is a frame, the text
  of the first one follows the newline. The frames are those of \<^verbatim>\<open>StackFrames\<close>, one for
  each program counter when none were resolved before.
\<close>

theorem message_without_frames:
  "Error_Error n (map (\<lambda>x. x\<lparr>stack := s x, frames := f x\<rparr>) h) r = Error_Error n h r
   \<and> (deref h r = Some x \<and> error_Error n h (Err x) = Some (Inr m) \<longrightarrow>
        Error_Error (Suc n) h r
          = Some (Inr (if prefix x \<noteq> [] then prefix x @ '': '' @ m else m)))
   \<and> (deref h r = Some x \<and> Err x = Some (Plain p) \<longrightarrow>
        Error_TypeName h r
          = Inr (case p of UncaughtPanic u \<Rightarrow> ''panic'' | Foreign ty u \<Rightarrow> ty)
      \<and> Error_Error (Suc n) h r
          = Some (Inr (if prefix x \<noteq> [] then prefix x @ '': '' @ plain_Error p
                       else plain_Error p)))
   \<and> (Error_TypeName h r = Inr t \<and> Error_Error n h r = Some (Inr msg) \<longrightarrow>
        (\<exists>fs h'. Error_StackFrames N h r = Inr (fs, h')
           \<and> Error_ErrorStack n N S h r
               = Some (Inr (t @ '' '' @ msg @ [CHR 0x0A] @ concat (map S fs), h'))
           \<and> (\<forall>y. deref h r = Some y \<and> frames y = None \<longrightarrow> fs = map N (stack y))
           \<and> (fs \<noteq> [] \<longrightarrow> concat (map S fs) = S (hd fs) @ concat (map S (tl fs)))))"
proof (intro conjI impI)
  show "Error_Error n (map (\<lambda>x. x\<lparr>stack := s x, frames := f x\<rparr>) h) r = Error_Error n h r"
    by (simp add: Error_Error_def error_Error_ignores_frames)
next
  assume "deref h r = Some x \<and> error_Error n h (Err x) = Some (Inr m)"
  then show "Error_Error (Suc n) h r
          = Some (Inr (if prefix x \<noteq> [] then prefix x @ '': '' @ m else m))"
    by (simp add: Error_Error_cell)
next
  assume a: "deref h r = Some x \<and> Err x = Some (Plain p)"
  then show "Error_TypeName h r
          = Inr (case p of UncaughtPanic u \<Rightarrow> ''panic'' | Foreign ty u \<Rightarrow> ty)"
    by (simp add: Error_TypeName_def split: plainerr.splits)
  from a have "error_Error n h (Err x) = Some (Inr (plain_Error p))" by simp
  with a show "Error_Error (Suc n) h r
          = Some (Inr (if prefix x \<noteq> [] then prefix x @ '': '' @ plain_Error p
                       else plain_Error p))"
    using Error_Error_cell [of h r x n "plain_Error p"] by simp
next
  assume a: "Error_TypeName h r = Inr t \<and> Error_Error n h r = Some (Inr msg)"
  then obtain a' y where r: "r = Addr a'" and d: "deref h r = Some y"
    using TypeName_deref by blast
  from StackFrames_returns [of h a' y N] d r
  obtain fs h' where sf: "Error_StackFrames N h r = Inr (fs, h')"
    and fs: "frames y = None \<longrightarrow> fs = map N (stack y)" by auto
  have es: "Error_ErrorStack n N S h r
               = Some (Inr (t @ '' '' @ msg @ [CHR 0x0A] @ concat (map S fs), h'))"
    using a sf by (simp add: Error_ErrorStack_eq)
  have hd: "fs \<noteq> [] \<longrightarrow> concat (map S fs) = S (hd fs) @ concat (map S (tl fs))"
    by (cases fs) simp_all
  show "\<exists>fs h'. Error_StackFrames N h r = Inr (fs, h')
           \<and> Error_ErrorStack n N S h r
               = Some (Inr (t @ '' '' @ msg @ [CHR 0x0A] @ concat (map S fs), h'))
           \<and> (\<forall>y. deref h r = Some y \<and> frames y = None \<longrightarrow> fs = map N (stack y))
           \<and> (fs \<noteq> [] \<longrightarrow> concat (map S fs) = S (hd fs) @ concat (map S (tl fs)))"
    using sf es fs hd d by auto
qed

theorem message_without_frames_witness:
  "Error_TypeName [\<lparr>Err = Some (Plain (Foreign ''*errors.errorString'' ''boom'')), stack = [4, 5], frames = None, prefix = ''B''\<rparr>] (Addr 0) = Inr ''*errors.errorString''
   \<and> Error_Error 1 [\<lparr>Err = Some (Plain (Foreign ''*errors.errorString'' ''boom'')), stack = [4, 5], frames = None, prefix = ''B''\<rparr>] (Addr 0) = Some (Inr ''B: boom'')
   \<and> Error_ErrorStack 1 (\<lambda>pc. \<lparr>location = pc, functionName = ''main.run'', fileName = ''main.go'', lineNumber = 7\<rparr>) functionName [\<lparr>Err = Some (Plain (Foreign ''*errors.errorString'' ''boom'')), stack = [4, 5], frames = None, prefix = ''B''\<rparr>] (Addr 0)
       = Some (Inr (''*errors.errorString B: boom'' @ [CHR 0x0A] @ ''main.runmain.run'', [\<lparr>Err = Some (Plain (Foreign ''*errors.errorString'' ''boom'')), stack = [4, 5], frames = Some [\<lparr>location = 4, functionName = ''main.run'', fileName = ''main.go'', lineNumber = 7\<rparr>, \<lparr>location = 5, functionName = ''main.run'', fileName = ''main.go'', lineNumber = 7\<rparr>], prefix = ''B''\<rparr>]))"
proof -
  have d: "deref [\<lparr>Err = Some (Plain (Foreign ''*errors.errorString'' ''boom'')), stack = [4, 5], frames = None, prefix = ''B''\<rparr>] (Addr 0) = Some \<lparr>Err = Some (Plain (Foreign ''*errors.errorString'' ''boom'')), stack = [4, 5], frames = None, prefix = ''B''\<rparr>
           \<and> Err \<lparr>Err = Some (Plain (Foreign ''*errors.errorString'' ''boom'')), stack = [4, 5], frames = None, prefix = ''B''\<rparr> = Some (Plain (Foreign ''*errors.errorString'' ''boom''))"
    by simp
  from message_without_frames [where h = "[\<lparr>Err = Some (Plain (Foreign ''*errors.errorString'' ''boom'')), stack = [4, 5], frames = None, prefix = ''B''\<rparr>]" and r = "Addr 0" and x = "\<lparr>Err = Some (Plain (Foreign ''*errors.errorString'' ''boom'')), stack = [4, 5], frames = None, prefix = ''B''\<rparr>"
      and p = "Foreign ''*errors.errorString'' ''boom''" and n = 0] d
  have tm: "Error_TypeName [\<lparr>Err = Some (Plain (Foreign ''*errors.errorString'' ''boom'')), stack = [4, 5], frames = None, prefix = ''B''\<rparr>] (Addr 0) = Inr ''*errors.errorString''
            \<and> Error_Error 1 [\<lparr>Err = Some (Plain (Foreign ''*errors.errorString'' ''boom'')), stack = [4, 5], frames = None, prefix = ''B''\<rparr>] (Addr 0) = Some (Inr ''B: boom'')"
    by simp
  from message_without_frames [where h = "[\<lparr>Err = Some (Plain (Foreign ''*errors.errorString'' ''boom'')), stack = [4, 5], frames = None, prefix = ''B''\<rparr>]" and r = "Addr 0"
      and t = "''*errors.errorString''" and n = 1 and msg = "''B: boom''"
      and N = "(\<lambda>pc. \<lparr>location = pc, functionName = ''main.run'', fileName = ''main.go'', lineNumber = 7\<rparr>)" and S = functionName] tm
  obtain fs h' where sf: "Error_StackFrames (\<lambda>pc. \<lparr>location = pc, functionName = ''main.run'', fileName = ''main.go'', lineNumber = 7\<rparr>) [\<lparr>Err = Some (Plain (Foreign ''*errors.errorString'' ''boom'')), stack = [4, 5], frames = None, prefix = ''B''\<rparr>] (Addr 0) = Inr (fs, h')"
    and es: "Error_ErrorStack 1 (\<lambda>pc. \<lparr>location = pc, functionName = ''main.run'', fileName = ''main.go'', lineNumber = 7\<rparr>) functionName [\<lparr>Err = Some (Plain (Foreign ''*errors.errorString'' ''boom'')), stack = [4, 5], frames = None, prefix = ''B''\<rparr>] (Addr 0)
       = Some (Inr (''*errors.errorString'' @ '' '' @ ''B: boom'' @ [CHR 0x0A]
                      @ concat (map functionName fs), h'))"
    by blast
  from sf have "fs = [\<lparr>location = 4, functionName = ''main.run'', fileName = ''main.go'', lineNumber = 7\<rparr>, \<lparr>location = 5, functionName = ''main.run'', fileName = ''main.go'', lineNumber = 7\<rparr>] \<and> h' = [\<lparr>Err = Some (Plain (Foreign ''*errors.errorString'' ''boom'')), stack = [4, 5], frames = Some [\<lparr>location = 4, functionName = ''main.run'', fileName = ''main.go'', lineNumber = 7\<rparr>, \<lparr>location = 5, functionName = ''main.run'', fileName = ''main.go'', lineNumber = 7\<rparr>], prefix = ''B''\<rparr>]"
    by (auto simp: StackFrames_first)
  with es tm show ?thesis by simp
qed

text \<open>
  C10. \<^verbatim>\<open>New(nil)\<close> is not nil, unlike \<^verbatim>\<open>Wrap(nil, skip)\<close>: the nil interface takes
  the \<^verbatim>\<open>fmt.Errorf("%v")\<close> branch, so whenever the \<^verbatim>\<open>make\<close> of the stack buffer succeeds
  \<^verbatim>\<open>New\<close> returns a new \<^verbatim>\<open>*Error\<close> whose \<^verbatim>\<open>Err\<close> is an error made of the message
  \<^verbatim>\<open><nil>\<close> only, with the stack captured by this call; its \<^verbatim>\<open>Error()\<close> is
  \<^verbatim>\<open><nil>\<close>. And \<^verbatim>\<open>New(nil)\<close> never returns nil: whatever it returns is a \<^verbatim>\<open>*Error\<close>.
\<close>

theorem New_nil_not_nil:
  "(makeslice avail MaxStackDepth = None \<longrightarrow>
      New avail MaxStackDepth cs h NilIface =
        Inr (Some (ErrorPtr (Addr (length h))),
             h @ [\<lparr>Err = Some (Plain (Foreign ''*errors.errorString'' ''<nil>'')),
                    stack = Callers 2 (nat (sint MaxStackDepth)) cs,
                    frames = None, prefix = []\<rparr>])
    \<and> Error_Error (Suc n)
         (h @ [\<lparr>Err = Some (Plain (Foreign ''*errors.errorString'' ''<nil>'')),
                  stack = Callers 2 (nat (sint MaxStackDepth)) cs,
                  frames = None, prefix = []\<rparr>])
         (Addr (length h)) = Some (Inr ''<nil>''))
   \<and> (New avail MaxStackDepth cs h NilIface = Inr (g, h')
        \<longrightarrow> g = Some (ErrorPtr (Addr (length h))))
   \<and> Wrap avail MaxStackDepth cs h NilIface skip = Inr (None, h)"
proof (intro conjI impI)
  assume m: "makeslice avail MaxStackDepth = None"
  show "New avail MaxStackDepth cs h NilIface =
        Inr (Some (ErrorPtr (Addr (length h))),
             h @ [\<lparr>Err = Some (Plain (Foreign ''*errors.errorString'' ''<nil>'')),
                    stack = Callers 2 (nat (sint MaxStackDepth)) cs,
                    frames = None, prefix = []\<rparr>])"
    by (simp add: New_returns [OF m] fmt_Errorf_def nilAngleString_def)
next
  show "Error_Error (Suc n)
         (h @ [\<lparr>Err = Some (Plain (Foreign ''*errors.errorString'' ''<nil>'')),
                  stack = Callers 2 (nat (sint MaxStackDepth)) cs,
                  frames = None, prefix = []\<rparr>])
         (Addr (length h)) = Some (Inr ''<nil>'')"
    by (simp add: Error_Error_def)
next
  assume "New avail MaxStackDepth cs h NilIface = Inr (g, h')"
  from New_Inr [OF this] show "g = Some (ErrorPtr (Addr (length h)))"
    by simp
next
  show "Wrap avail MaxStackDepth cs h NilIface skip = Inr (None, h)"
    by (simp add: Wrap_def)
qed

theorem New_nil_not_nil_witness:
  "makeslice 65536 50 = None
   \<and> New 65536 50 [1, 2, 3, 4, 5] [] NilIface =
       Inr (Some (ErrorPtr (Addr 0)),
            [\<lparr>Err = Some (Plain (Foreign ''*errors.errorString'' ''<nil>'')),
              stack = [3, 4, 5], frames = None, prefix = []\<rparr>])
   \<and> Error_Error 1
        [\<lparr>Err = Some (Plain (Foreign ''*errors.errorString'' ''<nil>'')),
          stack = [3, 4, 5], frames = None, prefix = []\<rparr>]
        (Addr 0) = Some (Inr ''<nil>'')"
proof -
  have m: "makeslice 65536 50 = None"
    by (simp add: makeslice_def maxAlloc_def)
  from New_nil_not_nil [where avail = 65536 and MaxStackDepth = 50
      and cs = "[1, 2, 3, 4, 5]" and h = "[]" and n = 0 and skip = 0
      and g = "Some (ErrorPtr (Addr 0))" and h' = "[]"] m
  show ?thesis by (simp add: Callers_def)
qed

end
